theory Spec2Isabelle
  imports Main
begin

section \<open>The server of src/server/server.js\<close>

text \<open>
  The file registers three things on an Express application, in this order: the static
  middleware for the directory \<^verbatim>\<open>public\<close>, a handler mounted at \<^verbatim>\<open>/content/\<close> that
  proxies to the content server, and a \<^verbatim>\<open>get('*')\<close> route that renders a page. The
  handlers are embedded as functions from a request to the list of calls they make on
  their collaborators (the trace), together with the error they end with, if any.
  What the file imports (the route table, the renderer, the authorisation helpers, the
  HTTP transports, the files of the static directory) is a field of the record \<open>host\<close>;
  how Express picks the handler of a request is written out in \<open>server\<close>.
\<close>

subsection \<open>Strings\<close>

text \<open>
  \<^verbatim>\<open>String.prototype.charAt\<close>: the string of the one character at the index, and the
  empty string when the index is out of range (so \<^verbatim>\<open>''.charAt(-1)\<close> is \<^verbatim>\<open>''\<close>).
\<close>

definition charAt :: "string \<Rightarrow> int \<Rightarrow> string" where
  "charAt s i = (if 0 \<le> i \<and> i < int (length s) then [s ! nat i] else [])"

text \<open>\<^verbatim>\<open>String.prototype.startsWith\<close>.\<close>

definition startsWith :: "string \<Rightarrow> string \<Rightarrow> bool" where
  "startsWith s p = (take (length p) s = p)"

subsection \<open>Data\<close>

text \<open>
  The inbound request, as far as the file reads it: \<^verbatim>\<open>req.method\<close>, \<^verbatim>\<open>req.url\<close>,
  \<^verbatim>\<open>req.query\<close>, and the body as the chunks the stream delivers.
\<close>

record request =
  "method" :: string
  url :: string
  query :: "(string \<times> string) list"
  body :: "string list"

text \<open>
  A promise, by how it settles. The file only ever calls \<^verbatim>\<open>then\<close> with one callback, so
  a rejected promise runs nothing and is left unhandled.
\<close>

datatype 'a promise = Resolved 'a | Rejected

text \<open>
  A route descriptor of \<^verbatim>\<open>Routes\<close>. Both properties are optional: the object \<^verbatim>\<open>{}\<close> that
  stands in for an unmatched route has neither. A value of type \<open>'d option\<close> is a
  JavaScript value that may be \<^verbatim>\<open>undefined\<close> (\<open>None\<close>).
\<close>

record 'd route =
  path :: "string option"
  fetchInitialData :: "(request \<Rightarrow> 'd option promise) option"

text \<open>
  The render context \<^verbatim>\<open>{ data, requestQueryParams }\<close>; the renderer may set \<^verbatim>\<open>notFound\<close>
  on it, which is absent (falsy) when the context is built.
\<close>

record 'd render_context =
  data :: "'d option"
  requestQueryParams :: "(string \<times> string) list"
  notFound :: bool

text \<open>The options of the outbound request: \<^verbatim>\<open>{}\<close> or \<^verbatim>\<open>{ headers: {...} }\<close>.\<close>

record options =
  headers :: "(string \<times> string) list option"

text \<open>
  The upstream response handed to the callback of \<^verbatim>\<open>http.request\<close>: its
  \<^verbatim>\<open>statusCode\<close>, its \<^verbatim>\<open>headers\<close> (here \<open>responseHeaders\<close>, the name \<open>headers\<close>
  being taken by the options), and the chunks its stream delivers.
\<close>

record proxyResponse =
  statusCode :: nat
  responseHeaders :: "(string \<times> string) list"
  chunks :: "string list"

datatype transport = Http | Https

datatype error = TypeError | UnhandledRejection

text \<open>
  The calls a handler makes, in the order it makes them.
\<close>

datatype 'd event =
    CallIsAuthNeeded
  | CallGetAuthValue
  | HttpRequest transport string options
  | ProxyWrite string
  | ProxyEnd
  | ResWriteHead nat "(string \<times> string) list"
  | ResWrite string
  | ResEnd
  | CallFetchInitialData
  | CallRenderer "'d render_context"
  | ResStatus nat
  | ResSend string
  | StaticServed
  | NotHandled

type_synonym 'd outcome = "'d event list \<times> error option"

text \<open>
  Everything the file takes from outside itself.
  \<^item> \<open>SERVER_URL\<close>: \<^verbatim>\<open>process.env.SERVER_URL\<close>, \<open>None\<close> when the variable is not set.
  \<^item> \<open>isAuthNeeded\<close>, \<open>getAuthValue\<close>: what the two functions of
    \<^verbatim>\<open>server-config-utils\<close> return.
  \<^item> \<open>Routes\<close>, \<open>matchPath\<close>, \<open>renderer\<close>: the route table, whether react-router's
    \<^verbatim>\<open>matchPath\<close> returns a match, and the renderer, which returns the content and the
    context as it leaves it (\<open>None\<close> when it throws).
  \<^item> \<open>upstream\<close>: the response the transport delivers to the callback of a request
    (\<open>None\<close> when none arrives).
  \<^item> \<open>static\<close>: whether the static middleware finds a file for the request and serves it.
\<close>

record 'd host =
  SERVER_URL :: "string option"
  isAuthNeeded :: bool
  getAuthValue :: "string option promise"
  Routes :: "'d route list"
  matchPath :: "string \<Rightarrow> 'd route \<Rightarrow> bool"
  renderer :: "request \<Rightarrow> 'd render_context \<Rightarrow> (string \<times> 'd render_context) option"
  upstream :: "transport \<Rightarrow> string \<Rightarrow> options \<Rightarrow> proxyResponse option"
  static :: "request \<Rightarrow> bool"

subsection \<open>handleContentRequest\<close>

text \<open>
  Lines 44 to 50: the variable \<^verbatim>\<open>content\<close>, then the URL of the real server.
\<close>

definition content :: "string \<Rightarrow> string \<Rightarrow> string" where
  "content serverUrl reqUrl =
     (let c = (if charAt serverUrl (int (length serverUrl) - 1) = ''/''
               then ''content'' else ''/content'')
      in if charAt reqUrl 0 \<noteq> ''/'' then c @ ''/'' else c)"

definition oceUrl :: "string \<Rightarrow> string \<Rightarrow> string" where
  "oceUrl serverUrl reqUrl = serverUrl @ content serverUrl reqUrl @ reqUrl"

text \<open>
  Lines 52 to 56. \<^verbatim>\<open>if (authValue)\<close> holds for a string that is not empty, and fails for
  the empty string and for \<^verbatim>\<open>undefined\<close>.
\<close>

definition request_options :: "string option \<Rightarrow> options" where
  "request_options authValue =
     (case authValue of
        None \<Rightarrow> \<lparr>headers = None\<rparr>
      | Some v \<Rightarrow>
          if v \<noteq> [] then \<lparr>headers = Some [(''Authorization'', v)]\<rparr>
          else \<lparr>headers = None\<rparr>)"

text \<open>
  \<^verbatim>\<open>readable.pipe(writable, { end: true })\<close>: each chunk is written, then the
  destination is ended.
\<close>

definition pipe :: "(string \<Rightarrow> 'e) \<Rightarrow> 'e \<Rightarrow> string list \<Rightarrow> 'e list" where
  "pipe write fin cs = map write cs @ [fin]"

text \<open>Lines 59 to 64.\<close>

definition writeProxyContent :: "proxyResponse \<Rightarrow> 'd event list" where
  "writeProxyContent proxyResponse =
     ResWriteHead (statusCode proxyResponse) (responseHeaders proxyResponse)
       # pipe ResWrite ResEnd (chunks proxyResponse)"

text \<open>Lines 67 to 69: the module that makes the request.\<close>

definition transport_of :: "string \<Rightarrow> transport" where
  "transport_of u = (if startsWith u ''https'' then Https else Http)"

text \<open>
  The whole function. Reading \<^verbatim>\<open>charAt\<close> of an undefined \<^verbatim>\<open>SERVER_URL\<close> throws a
  TypeError. The trace lists the request that is opened, the inbound body piped into
  it, and what the response callback does when the transport delivers a response. The
  transport may deliver the response while the body is still being piped; the
  properties below read the calls on the response and those on the transport
  separately, so none depends on how the two interleave.
\<close>

definition handleContentRequest :: "'d host \<Rightarrow> request \<Rightarrow> string option \<Rightarrow> 'd outcome" where
  "handleContentRequest h req authValue =
     (if method req \<noteq> ''GET'' then ([], None)
      else case SERVER_URL h of
        None \<Rightarrow> ([], Some TypeError)
      | Some serverUrl \<Rightarrow>
          (let u = oceUrl serverUrl (url req);
               opts = request_options authValue;
               t = transport_of u
           in (HttpRequest t u opts # pipe ProxyWrite ProxyEnd (body req)
                 @ (case upstream h t u opts of
                      None \<Rightarrow> []
                    | Some proxyResponse \<Rightarrow> writeProxyContent proxyResponse),
               None)))"

subsection \<open>The handler mounted at /content/\<close>

text \<open>
  Lines 93 to 101. An error thrown inside the \<^verbatim>\<open>then\<close> callback rejects the promise
  \<^verbatim>\<open>then\<close> returns, which nothing handles.
\<close>

definition content_handler :: "'d host \<Rightarrow> request \<Rightarrow> 'd outcome" where
  "content_handler h req =
     (if isAuthNeeded h then
        (case getAuthValue h of
           Rejected \<Rightarrow> ([CallIsAuthNeeded, CallGetAuthValue], Some UnhandledRejection)
         | Resolved authValue \<Rightarrow>
             (let (tr, e) = handleContentRequest h req authValue
              in ([CallIsAuthNeeded, CallGetAuthValue] @ tr,
                  map_option (\<lambda>_. UnhandledRejection) e)))
      else
        (let (tr, e) = handleContentRequest h req (Some '''')
         in (CallIsAuthNeeded # tr, e)))"

subsection \<open>The route get('*')\<close>

text \<open>Line 107: \<^verbatim>\<open>Routes.find(...) || {}\<close>.\<close>

definition empty_route :: "'d route" where
  "empty_route = \<lparr>path = None, fetchInitialData = None\<rparr>"

definition activeRoute :: "'d host \<Rightarrow> request \<Rightarrow> 'd route" where
  "activeRoute h req =
     (case find (matchPath h (url req)) (Routes h) of
        Some r \<Rightarrow> r
      | None \<Rightarrow> empty_route)"

text \<open>Lines 109 to 111: the promise of the data; \<^verbatim>\<open>Promise.resolve()\<close> resolves to undefined.\<close>

definition data_promise :: "'d host \<Rightarrow> request \<Rightarrow> 'd event list \<times> 'd option promise" where
  "data_promise h req =
     (case fetchInitialData (activeRoute h req) of
        Some f \<Rightarrow> ([CallFetchInitialData], f req)
      | None \<Rightarrow> ([], Resolved None))"

text \<open>Lines 113 to 127: the callback of \<^verbatim>\<open>promise.then\<close>.\<close>

definition on_data :: "'d host \<Rightarrow> request \<Rightarrow> 'd option \<Rightarrow> 'd outcome" where
  "on_data h req d =
     (let ctx = \<lparr>data = d, requestQueryParams = query req, notFound = False\<rparr>
      in case renderer h req ctx of
           None \<Rightarrow> ([CallRenderer ctx], Some UnhandledRejection)
         | Some (c, ctx') \<Rightarrow>
             (CallRenderer ctx # (if notFound ctx' then [ResStatus 404] else []) @ [ResSend c],
              None))"

definition render_handler :: "'d host \<Rightarrow> request \<Rightarrow> 'd outcome" where
  "render_handler h req =
     (let (tr, p) = data_promise h req
      in case p of
           Rejected \<Rightarrow> (tr, Some UnhandledRejection)
         | Resolved d \<Rightarrow> (let (tr', e) = on_data h req d in (tr @ tr', e)))"

subsection \<open>The application\<close>

text \<open>
  A route registered with \<^verbatim>\<open>server.get\<close> is run for GET requests, and by Express for
  HEAD requests too; no other method reaches it.
\<close>

definition get_accepts :: "string \<Rightarrow> bool" where
  "get_accepts m = (m = ''GET'' \<or> m = ''HEAD'')"

text \<open>
  Line 93: \<^verbatim>\<open>server.use('/content/', ...)\<close>. Express matches a mount path against the
  path of the request URL, which is the URL up to its query string or fragment.
\<close>

definition pathname :: "string \<Rightarrow> string" where
  "pathname u = takeWhile (\<lambda>c. c \<noteq> CHR ''?'' \<and> c \<noteq> CHR ''#'') u"

text \<open>
  Routing is not case sensitive unless the application asks for it, which the file does
  not: the eight characters \<^verbatim>\<open>/content\<close> are matched in either case.
\<close>

definition content_ci :: "string \<Rightarrow> bool" where
  "content_ci p = list_all2 (\<lambda>c (l, u). c = l \<or> c = u) p (zip ''/content'' ''/CONTENT'')"

text \<open>
  The part of the path that the layer of the mount path \<^verbatim>\<open>/content/\<close> matches. Express
  builds a regular expression for it that is anchored at the start and not at the end:
  the eight characters, then a slash if the path ends there or goes on with another
  slash, and in any case the end of the path or a slash next. So \<^verbatim>\<open>/content\<close> itself
  matches, and \<^verbatim>\<open>/contents\<close> does not.
\<close>

definition layerPath :: "string \<Rightarrow> string option" where
  "layerPath p =
     (if \<not> content_ci (take 8 p) then None
      else
        (let r = drop 8 p
         in if r = [] then Some (take 8 p)
            else if hd r \<noteq> CHR ''/'' then None
            else if tl r = [] \<or> hd (tl r) = CHR ''/'' then Some (take 9 p)
            else Some (take 8 p)))"

text \<open>
  The URL that the mounted handler sees: Express takes the matched part off
  \<^verbatim>\<open>req.url\<close> and puts a slash in front of what is left when it does not start with
  one. \<open>None\<close> when the mount path does not match and the request is passed on.
\<close>

definition mount_content :: "string \<Rightarrow> string option" where
  "mount_content u =
     (case layerPath (pathname u) of
        None \<Rightarrow> None
      | Some removed \<Rightarrow>
          (let rest = drop (length removed) u
           in Some (if charAt rest 0 \<noteq> ''/'' then CHR ''/'' # rest else rest)))"

text \<open>
  The middleware stack in the order of registration (lines 33, 93 and 106). The static
  middleware ends the request when it serves a file and passes it on otherwise; the
  content handler never passes a request on; the route \<^verbatim>\<open>get('*')\<close> matches every
  path; a request that nothing takes is answered by Express itself, outside the file.
\<close>

definition server :: "'d host \<Rightarrow> request \<Rightarrow> 'd outcome" where
  "server h req =
     (if static h req then ([StaticServed], None)
      else case mount_content (url req) of
        Some u \<Rightarrow> content_handler h (req\<lparr>url := u\<rparr>)
      | None \<Rightarrow>
          if get_accepts (method req) then render_handler h req
          else ([NotHandled], None))"

subsection \<open>Reading a trace as a response\<close>

text \<open>
  The status of the response after the calls of a trace: 200, the initial
  \<^verbatim>\<open>statusCode\<close> of a response, unless \<^verbatim>\<open>res.status\<close> or \<^verbatim>\<open>res.writeHead\<close> set it.
\<close>

fun set_status :: "nat \<Rightarrow> 'd event \<Rightarrow> nat" where
  "set_status s (ResStatus n) = n"
| "set_status s (ResWriteHead n hs) = n"
| "set_status s e = s"

definition response_status :: "'d event list \<Rightarrow> nat" where
  "response_status tr = foldl set_status 200 tr"

text \<open>The bytes written to the response, in order.\<close>

fun written :: "'d event \<Rightarrow> string" where
  "written (ResWrite c) = c"
| "written (ResSend c) = c"
| "written e = []"

definition response_body :: "'d event list \<Rightarrow> string" where
  "response_body tr = concat (map written tr)"

text \<open>Which calls are made on the response object, and which on the outbound transport.\<close>

fun on_response :: "'d event \<Rightarrow> bool" where
  "on_response (ResWriteHead n hs) = True"
| "on_response (ResWrite c) = True"
| "on_response ResEnd = True"
| "on_response (ResStatus n) = True"
| "on_response (ResSend c) = True"
| "on_response e = False"

fun on_transport :: "'d event \<Rightarrow> bool" where
  "on_transport (HttpRequest t u opts) = True"
| "on_transport (ProxyWrite c) = True"
| "on_transport ProxyEnd = True"
| "on_transport e = False"

fun outbound :: "'d event \<Rightarrow> (transport \<times> string \<times> options) list" where
  "outbound (HttpRequest t u opts) = [(t, u, opts)]"
| "outbound e = []"

text \<open>The outbound requests a trace opens, and the contexts it calls the renderer with.\<close>

definition outbound_requests :: "'d event list \<Rightarrow> (transport \<times> string \<times> options) list" where
  "outbound_requests tr = concat (map outbound tr)"

fun rendered :: "'d event \<Rightarrow> 'd render_context list" where
  "rendered (CallRenderer ctx) = [ctx]"
| "rendered e = []"

definition renderer_calls :: "'d event list \<Rightarrow> 'd render_context list" where
  "renderer_calls tr = concat (map rendered tr)"

text \<open>The \<^verbatim>\<open>Authorization\<close> header of the options of a request, if they have one.\<close>

definition authorization :: "options \<Rightarrow> string option" where
  "authorization opts =
     (case headers opts of None \<Rightarrow> None | Some hs \<Rightarrow> map_of hs ''Authorization'')"

subsection \<open>What the specification says of the upstream URL\<close>

text \<open>\<^verbatim>\<open>String.prototype.endsWith\<close>.\<close>

definition endsWith :: "string \<Rightarrow> string \<Rightarrow> bool" where
  "endsWith s p = (length p \<le> length s \<and> drop (length s - length p) s = p)"

definition ends_with_slash :: "string \<Rightarrow> bool" where
  "ends_with_slash s = (s \<noteq> [] \<and> last s = CHR ''/'')"

definition starts_with_slash :: "string \<Rightarrow> bool" where
  "starts_with_slash s = (s \<noteq> [] \<and> hd s = CHR ''/'')"

text \<open>A base URL without the slash it ends with, a path without the slash it starts with.\<close>

definition strip_trailing_slash :: "string \<Rightarrow> string" where
  "strip_trailing_slash s = (if ends_with_slash s then butlast s else s)"

definition strip_leading_slash :: "string \<Rightarrow> string" where
  "strip_leading_slash s = (if starts_with_slash s then tl s else s)"

text \<open>
  The specification's property of the upstream URL \<open>u\<close> for the base URL \<open>B\<close> and the
  inbound path \<open>P\<close>, written from its words and not from the code: \<open>u\<close> is \<open>B\<close>, the
  segment \<^verbatim>\<open>content\<close> and \<open>P\<close>, where \<open>B\<close> may bring a trailing slash and \<open>P\<close> a
  leading one, with exactly one slash on either side of the segment: one is there, and
  no second one stands next to it.
\<close>

definition single_slash_join :: "string \<Rightarrow> string \<Rightarrow> string \<Rightarrow> bool" where
  "single_slash_join B P u =
     (u = strip_trailing_slash B @ ''/content/'' @ strip_leading_slash P
      \<and> \<not> ends_with_slash (strip_trailing_slash B)
      \<and> \<not> starts_with_slash (strip_leading_slash P))"

subsection \<open>A concrete host and concrete requests\<close>

text \<open>
  The host of the specification's scenarios: the content server at
  \<^verbatim>\<open>http://cms.example.com\<close>, a credential that is required, a route table of two
  routes matched by equality of the path, a renderer that knows these two pages and
  reports every other one as not found, and an empty static directory.
\<close>

definition about_route :: "string route" where
  "about_route = \<lparr>path = Some ''/about'', fetchInitialData = None\<rparr>"

definition home_route :: "string route" where
  "home_route =
     \<lparr>path = Some ''/'', fetchInitialData = Some (\<lambda>req. Resolved (Some ''gallery''))\<rparr>"

definition example_renderer ::
  "request \<Rightarrow> string render_context \<Rightarrow> (string \<times> string render_context) option" where
  "example_renderer req ctx =
     (if url req = ''/about'' \<or> url req = ''/'' then Some (''<html>page</html>'', ctx)
      else Some (''<html>not found</html>'', ctx\<lparr>notFound := True\<rparr>))"

definition logo_response :: proxyResponse where
  "logo_response =
     \<lparr>statusCode = 200, responseHeaders = [(''content-type'', ''image/png'')],
      chunks = [''PNG'', ''DATA'']\<rparr>"

definition example_host :: "string host" where
  "example_host =
     \<lparr>SERVER_URL = Some ''http://cms.example.com'', isAuthNeeded = True,
      getAuthValue = Resolved (Some ''Basic abc''), Routes = [home_route, about_route],
      matchPath = (\<lambda>u r. path r = Some u), renderer = example_renderer,
      upstream = (\<lambda>t u opts. Some logo_response), static = (\<lambda>req. False)\<rparr>"

definition get_logo :: request where
  "get_logo = \<lparr>method = ''GET'', url = ''/assets/logo.png'', query = [], body = []\<rparr>"

definition post_logo :: request where
  "post_logo = \<lparr>method = ''POST'', url = ''/assets/logo.png'', query = [], body = [''x'']\<rparr>"

definition get_home :: request where
  "get_home = \<lparr>method = ''GET'', url = ''/'', query = [], body = []\<rparr>"

definition get_about :: request where
  "get_about = \<lparr>method = ''GET'', url = ''/about'', query = [], body = []\<rparr>"

definition post_about :: request where
  "post_about = \<lparr>method = ''POST'', url = ''/about'', query = [], body = []\<rparr>"

definition get_unknown :: request where
  "get_unknown = \<lparr>method = ''GET'', url = ''/unknown'', query = [], body = []\<rparr>"

section \<open>The upstream URL\<close>

lemma charAt_last: "(charAt s (int (length s) - 1) = ''/'') = ends_with_slash s"
  by (cases s rule: rev_cases) (auto simp: charAt_def ends_with_slash_def nth_append)

lemma charAt_first: "(charAt s 0 = ''/'') = starts_with_slash s"
  by (cases s) (auto simp: charAt_def starts_with_slash_def)

text \<open>
  Whatever the two strings are, the code takes at most one slash off the end of the base
  URL and at most one off the start of the path, and puts \<^verbatim>\<open>/content/\<close> between.
\<close>

lemma oceUrl_parts:
  "oceUrl B P = strip_trailing_slash B @ ''/content/'' @ strip_leading_slash P"
proof -
  have b: "ends_with_slash B \<Longrightarrow> butlast B @ ''/'' = B"
    by (cases B rule: rev_cases) (auto simp: ends_with_slash_def)
  have p: "starts_with_slash P \<Longrightarrow> CHR ''/'' # tl P = P"
    by (cases P) (auto simp: starts_with_slash_def)
  show ?thesis
    using b p
    by (auto simp: oceUrl_def content_def charAt_last charAt_first
        strip_trailing_slash_def strip_leading_slash_def Let_def)
qed

lemma ends_twice:
  assumes "ends_with_slash s" and "ends_with_slash (butlast s)"
  shows "endsWith s ''//''"
proof -
  from assms(1) obtain r where s: "s = r @ ''/''"
    by (cases s rule: rev_cases) (auto simp: ends_with_slash_def)
  then have "butlast s = r" by simp
  with assms(2) obtain q where r: "r = q @ ''/''"
    by (cases r rule: rev_cases) (auto simp: ends_with_slash_def)
  show ?thesis by (simp add: s r endsWith_def)
qed

lemma starts_twice:
  assumes "starts_with_slash s" and "starts_with_slash (tl s)"
  shows "startsWith s ''//''"
proof -
  from assms(1) obtain r where s: "s = CHR ''/'' # r"
    by (cases s) (auto simp: starts_with_slash_def)
  then have "tl s = r" by simp
  with assms(2) obtain q where r: "r = CHR ''/'' # q"
    by (cases r) (auto simp: starts_with_slash_def)
  show ?thesis by (simp add: s r startsWith_def)
qed

text \<open>The four combinations, for a base that ends in no slash and a path that starts with none.\<close>

lemma oceUrl_four:
  assumes "\<not> ends_with_slash B" and "\<not> starts_with_slash P"
  shows "oceUrl B P = B @ ''/content/'' @ P"
    and "oceUrl (B @ ''/'') P = B @ ''/content/'' @ P"
    and "oceUrl B (''/'' @ P) = B @ ''/content/'' @ P"
    and "oceUrl (B @ ''/'') (''/'' @ P) = B @ ''/content/'' @ P"
proof -
  have b: "strip_trailing_slash B = B" "strip_trailing_slash (B @ ''/'') = B"
    using assms(1) by (auto simp: strip_trailing_slash_def ends_with_slash_def)
  have p: "strip_leading_slash P = P" "strip_leading_slash (''/'' @ P) = P"
    using assms(2) by (auto simp: strip_leading_slash_def starts_with_slash_def)
  show "oceUrl B P = B @ ''/content/'' @ P"
    and "oceUrl (B @ ''/'') P = B @ ''/content/'' @ P"
    and "oceUrl B (''/'' @ P) = B @ ''/content/'' @ P"
    and "oceUrl (B @ ''/'') (''/'' @ P) = B @ ''/content/'' @ P"
    by (simp_all only: oceUrl_parts b p)
qed

text \<open>The second slash of a base URL that ends in two stays in the URL.\<close>

lemma oceUrl_double_slash:
  "oceUrl ''http://cms.example.com//'' ''/assets/logo.png''
     = ''http://cms.example.com//content/assets/logo.png''"
  by (simp add: oceUrl_parts strip_trailing_slash_def strip_leading_slash_def
      ends_with_slash_def starts_with_slash_def)

text \<open>
  C1, as the code has it: for every base URL that does not end in two slashes and every
  inbound path that does not start with two, the upstream URL is the base URL, the
  segment \<^verbatim>\<open>content\<close> and the path with exactly one slash on either side of the segment,
  whether or not the base URL ends in a slash and whether or not the path starts with
  one.
\<close>

theorem C1_single_slash_join:
  assumes "\<not> endsWith B ''//''" and "\<not> startsWith P ''//''"
  shows "single_slash_join B P (oceUrl B P)"
  using assms ends_twice [of B] starts_twice [of P]
  by (auto simp: single_slash_join_def oceUrl_parts strip_trailing_slash_def
      strip_leading_slash_def)

theorem C1_single_slash_join_witness:
  "single_slash_join ''http://cms.example.com/'' ''/assets/logo.png''
     (oceUrl ''http://cms.example.com/'' ''/assets/logo.png'')
   \<and> oceUrl ''http://cms.example.com/'' ''/assets/logo.png''
       = ''http://cms.example.com/content/assets/logo.png''"
proof -
  have b: "\<not> endsWith ''http://cms.example.com/'' ''//''"
    by (simp add: endsWith_def)
  have p: "\<not> startsWith ''/assets/logo.png'' ''//''"
    by (simp add: startsWith_def)
  from C1_single_slash_join [OF b p] show ?thesis
    by (simp add: single_slash_join_def strip_trailing_slash_def strip_leading_slash_def
        ends_with_slash_def starts_with_slash_def)
qed

text \<open>
  C1 as the specification states it, for every base URL, fails for a base URL that ends
  in two slashes: two slashes stand between the host and the segment.
\<close>

theorem C1_double_slash_counterexample:
  "\<not> single_slash_join ''http://cms.example.com//'' ''/assets/logo.png''
        (oceUrl ''http://cms.example.com//'' ''/assets/logo.png'')"
  by (simp add: single_slash_join_def strip_trailing_slash_def ends_with_slash_def)

section \<open>The application and the render pipeline\<close>

lemma data_promise_cases:
  "fst (data_promise h req) = [] \<or> fst (data_promise h req) = [CallFetchInitialData]"
  by (simp add: data_promise_def split: option.splits)

lemma data_promise_no_response: "filter on_response (fst (data_promise h req)) = []"
  using data_promise_cases [of h req] by auto

lemma data_promise_quiet:
  "response_status (fst (data_promise h req) @ tr) = response_status tr"
  "response_body (fst (data_promise h req) @ tr) = response_body tr"
  "filter on_response (fst (data_promise h req) @ tr) = filter on_response tr"
  "renderer_calls (fst (data_promise h req) @ tr) = renderer_calls tr"
  using data_promise_cases [of h req]
  by (auto simp: response_status_def response_body_def renderer_calls_def)

text \<open>The mount path at work: what it takes, what the handler sees, what it lets pass.\<close>

lemma mount_content_logo:
  "mount_content ''/content/assets/logo.png'' = Some ''/assets/logo.png''"
  by (simp add: mount_content_def layerPath_def pathname_def content_ci_def charAt_def)

lemma mount_content_taken:
  "mount_content ''/content'' = Some ''/''"
  "mount_content ''/content/'' = Some ''/''"
  "mount_content ''/CONTENT/x'' = Some ''/x''"
  "mount_content ''/content//x'' = Some ''/x''"
  "mount_content ''/content?a=1'' = Some ''/?a=1''"
  by (simp_all add: mount_content_def layerPath_def pathname_def content_ci_def charAt_def)

lemma mount_content_passed:
  "mount_content ''/contents'' = None"
  "mount_content ''/about'' = None"
  "mount_content ''/'' = None"
  "mount_content ''/unknown'' = None"
  by (simp_all add: mount_content_def layerPath_def pathname_def content_ci_def)

text \<open>Every URL that starts with the content prefix goes to the mounted handler.\<close>

lemma mount_content_prefix:
  assumes "startsWith u ''/content/''"
  shows "mount_content u \<noteq> None"
proof -
  from assms have "take (length ''/content/'') u = ''/content/''"
    by (simp only: startsWith_def)
  then obtain r where u: "u = ''/content/'' @ r"
    by (metis append_take_drop_id)
  show ?thesis
    by (simp add: u mount_content_def layerPath_def pathname_def content_ci_def Let_def)
qed

text \<open>
  C2, as the code has it: take a request that the static middleware does not serve and
  whose path the mount path \<^verbatim>\<open>/content/\<close> does not match. When its method is one a
  \<^verbatim>\<open>get\<close> route accepts (GET, and HEAD), the render pipeline handles it and produces
  the response: the data of the active route is awaited, the renderer is called with
  it, and the content it returns is sent, after the status 404 when the renderer has set
  \<open>notFound\<close>; when the data promise rejects or the renderer throws, the request ends in
  an unhandled rejection with nothing sent. When its method is any other one, no handler
  of the file is run.
\<close>

theorem C2_get_is_rendered:
  assumes "\<not> static h req" and "mount_content (url req) = None"
  shows
    "if get_accepts (method req) then
       server h req = render_handler h req
       \<and> (case snd (data_promise h req) of
            Rejected \<Rightarrow> server h req = (fst (data_promise h req), Some UnhandledRejection)
          | Resolved d \<Rightarrow>
              (case renderer h req
                      \<lparr>data = d, requestQueryParams = query req, notFound = False\<rparr> of
                 None \<Rightarrow>
                   server h req
                     = (fst (data_promise h req)
                          @ [CallRenderer
                               \<lparr>data = d, requestQueryParams = query req, notFound = False\<rparr>],
                        Some UnhandledRejection)
               | Some (c, ctx') \<Rightarrow>
                   server h req
                     = (fst (data_promise h req)
                          @ CallRenderer
                              \<lparr>data = d, requestQueryParams = query req, notFound = False\<rparr>
                          # (if notFound ctx' then [ResStatus 404] else []) @ [ResSend c],
                        None)))
     else server h req = ([NotHandled], None)"
proof (cases "get_accepts (method req)")
  case True
  with assms have s: "server h req = render_handler h req"
    by (simp add: server_def)
  show ?thesis
    by (simp add: True s render_handler_def on_data_def split_beta Let_def
        split: promise.split option.split prod.split)
next
  case False
  with assms show ?thesis
    by (simp add: server_def)
qed

text \<open>
  \<^verbatim>\<open>GET /about\<close> is rendered without data, \<^verbatim>\<open>GET /\<close> with the data of its route, and
  \<^verbatim>\<open>GET /unknown\<close> is answered with 404.
\<close>

theorem C2_get_is_rendered_witness:
  "server example_host get_about =
     ([CallRenderer \<lparr>data = None, requestQueryParams = [], notFound = False\<rparr>,
       ResSend ''<html>page</html>''], None)
   \<and> server example_host get_home =
     ([CallFetchInitialData,
       CallRenderer \<lparr>data = Some ''gallery'', requestQueryParams = [], notFound = False\<rparr>,
       ResSend ''<html>page</html>''], None)
   \<and> server example_host get_unknown =
     ([CallRenderer \<lparr>data = None, requestQueryParams = [], notFound = False\<rparr>,
       ResStatus 404, ResSend ''<html>not found</html>''], None)"
proof -
  have s: "\<And>req. \<not> static example_host req"
    by (simp add: example_host_def)
  have m: "mount_content (url get_about) = None" "mount_content (url get_home) = None"
    "mount_content (url get_unknown) = None"
    by (simp_all add: get_about_def get_home_def get_unknown_def mount_content_passed)
  have g: "get_accepts (method get_about)" "get_accepts (method get_home)"
    "get_accepts (method get_unknown)"
    by (simp_all add: get_accepts_def get_about_def get_home_def get_unknown_def)
  have d: "data_promise example_host get_about = ([], Resolved None)"
    "data_promise example_host get_home = ([CallFetchInitialData], Resolved (Some ''gallery''))"
    "data_promise example_host get_unknown = ([], Resolved None)"
    by (simp_all add: data_promise_def activeRoute_def example_host_def get_about_def
        get_home_def get_unknown_def home_route_def about_route_def empty_route_def)
  have r: "renderer example_host = example_renderer"
    by (simp add: example_host_def)
  have q: "query get_about = []" "query get_home = []" "query get_unknown = []"
    "url get_about = ''/about''" "url get_home = ''/''" "url get_unknown = ''/unknown''"
    by (simp_all add: get_about_def get_home_def get_unknown_def)
  have "server example_host get_about =
     ([CallRenderer \<lparr>data = None, requestQueryParams = [], notFound = False\<rparr>,
       ResSend ''<html>page</html>''], None)"
    using C2_get_is_rendered [OF s m(1)] by (auto simp: g d r q example_renderer_def)
  moreover have "server example_host get_home =
     ([CallFetchInitialData,
       CallRenderer \<lparr>data = Some ''gallery'', requestQueryParams = [], notFound = False\<rparr>,
       ResSend ''<html>page</html>''], None)"
    using C2_get_is_rendered [OF s m(2)] by (auto simp: g d r q example_renderer_def)
  moreover have "server example_host get_unknown =
     ([CallRenderer \<lparr>data = None, requestQueryParams = [], notFound = False\<rparr>,
       ResStatus 404, ResSend ''<html>not found</html>''], None)"
    using C2_get_is_rendered [OF s m(3)] by (auto simp: g d r q example_renderer_def)
  ultimately show ?thesis by simp
qed

lemma render_post_about:
  "render_handler example_host post_about =
     ([CallRenderer \<lparr>data = None, requestQueryParams = [], notFound = False\<rparr>,
       ResSend ''<html>page</html>''], None)"
  by (simp add: render_handler_def data_promise_def activeRoute_def example_host_def
      post_about_def home_route_def about_route_def on_data_def example_renderer_def)

text \<open>
  C2 as the specification states it, for every method, fails for \<^verbatim>\<open>POST /about\<close>: the
  route is registered with \<^verbatim>\<open>server.get\<close>, the renderer is not called and the file
  writes no response, where the render pipeline would have sent the page.
\<close>

theorem C2_post_counterexample:
  "server example_host post_about = ([NotHandled], None)
   \<and> server example_host post_about \<noteq> render_handler example_host post_about"
proof -
  have "server example_host post_about = ([NotHandled], None)"
    by (simp add: server_def example_host_def post_about_def mount_content_passed
        get_accepts_def)
  then show ?thesis by (simp add: render_post_about)
qed

text \<open>
  C3: for every request handled by the render pipeline whose data promise resolves and
  whose renderer returns, the calls on the response are \<^verbatim>\<open>res.status(404)\<close> followed by
  \<^verbatim>\<open>res.send(content)\<close> when the renderer has set \<open>notFound\<close> on the context, and
  \<^verbatim>\<open>res.send(content)\<close> alone otherwise, so that the status is 404 in the first case
  and the default 200 in the second; in both the body sent is the content the renderer
  returned, and no error is raised.
\<close>

theorem C3_status_and_body:
  assumes "snd (data_promise h req) = Resolved d"
    and "renderer h req \<lparr>data = d, requestQueryParams = query req, notFound = False\<rparr>
           = Some (c, ctx')"
  shows "filter on_response (fst (render_handler h req))
           = (if notFound ctx' then [ResStatus 404, ResSend c] else [ResSend c])
         \<and> response_status (fst (render_handler h req)) = (if notFound ctx' then 404 else 200)
         \<and> response_body (fst (render_handler h req)) = c
         \<and> snd (render_handler h req) = None"
proof -
  let ?tr = "CallRenderer \<lparr>data = d, requestQueryParams = query req, notFound = False\<rparr>
               # (if notFound ctx' then [ResStatus 404] else []) @ [ResSend c]"
  have od: "on_data h req d = (?tr, None)"
    using assms(2) by (simp add: on_data_def)
  have rh: "render_handler h req = (fst (data_promise h req) @ ?tr, None)"
    using assms(1) od by (simp add: render_handler_def split_beta)
  show ?thesis
    by (simp add: rh data_promise_quiet data_promise_no_response)
      (simp add: response_status_def response_body_def)
qed

text \<open>The unknown page is answered with 404, the page \<^verbatim>\<open>/about\<close> with 200.\<close>

theorem C3_status_and_body_witness:
  "filter on_response (fst (render_handler example_host get_unknown))
     = [ResStatus 404, ResSend ''<html>not found</html>'']
   \<and> response_status (fst (render_handler example_host get_unknown)) = 404
   \<and> response_body (fst (render_handler example_host get_unknown)) = ''<html>not found</html>''
   \<and> response_status (fst (render_handler example_host get_about)) = 200
   \<and> response_body (fst (render_handler example_host get_about)) = ''<html>page</html>''"
proof -
  have p1: "snd (data_promise example_host get_unknown) = Resolved None"
    by (simp add: data_promise_def activeRoute_def example_host_def get_unknown_def
        home_route_def about_route_def empty_route_def)
  have r1: "renderer example_host get_unknown
              \<lparr>data = None, requestQueryParams = query get_unknown, notFound = False\<rparr>
            = Some (''<html>not found</html>'',
                \<lparr>data = None, requestQueryParams = [], notFound = True\<rparr>)"
    by (simp add: example_host_def example_renderer_def get_unknown_def)
  have p2: "snd (data_promise example_host get_about) = Resolved None"
    by (simp add: data_promise_def activeRoute_def example_host_def get_about_def
        home_route_def about_route_def)
  have r2: "renderer example_host get_about
              \<lparr>data = None, requestQueryParams = query get_about, notFound = False\<rparr>
            = Some (''<html>page</html>'',
                \<lparr>data = None, requestQueryParams = [], notFound = False\<rparr>)"
    by (simp add: example_host_def example_renderer_def get_about_def)
  from C3_status_and_body [OF p1 r1] C3_status_and_body [OF p2 r2] show ?thesis
    by simp
qed


section \<open>The content proxy\<close>

lemma pipe_proxy_quiet:
  "outbound_requests (pipe ProxyWrite ProxyEnd cs) = []"
  "filter on_response (pipe ProxyWrite ProxyEnd cs) = []"
  "foldl set_status s (pipe ProxyWrite ProxyEnd cs) = s"
  "response_body (pipe ProxyWrite ProxyEnd cs) = []"
  by (induction cs) (simp_all add: pipe_def outbound_requests_def response_body_def)

lemma pipe_res:
  "outbound_requests (pipe ResWrite ResEnd cs) = []"
  "filter on_response (pipe ResWrite ResEnd cs) = map ResWrite cs @ [ResEnd]"
  "foldl set_status s (pipe ResWrite ResEnd cs) = s"
  "response_body (pipe ResWrite ResEnd cs) = concat cs"
  by (induction cs) (simp_all add: pipe_def outbound_requests_def response_body_def)

lemma writeProxyContent_calls:
  "outbound_requests (writeProxyContent pr) = []"
  "filter on_response (writeProxyContent pr)
     = ResWriteHead (statusCode pr) (responseHeaders pr) # map ResWrite (chunks pr) @ [ResEnd]"
  "foldl set_status s (writeProxyContent pr) = statusCode pr"
  "response_body (writeProxyContent pr) = concat (chunks pr)"
  using pipe_res [where cs = "chunks pr"]
  by (simp_all add: writeProxyContent_def outbound_requests_def response_body_def)

lemma handleContentRequest_get:
  assumes "method req = ''GET''" and "SERVER_URL h = Some B"
  shows "handleContentRequest h req av =
           (HttpRequest (transport_of (oceUrl B (url req))) (oceUrl B (url req))
                (request_options av)
              # pipe ProxyWrite ProxyEnd (body req)
              @ (case upstream h (transport_of (oceUrl B (url req))) (oceUrl B (url req))
                        (request_options av) of
                   None \<Rightarrow> []
                 | Some pr \<Rightarrow> writeProxyContent pr),
            None)"
  using assms by (simp add: handleContentRequest_def Let_def)

lemma handleContentRequest_outbound:
  assumes "method req = ''GET''" and "SERVER_URL h = Some B"
  shows "outbound_requests (fst (handleContentRequest h req av))
           = [(transport_of (oceUrl B (url req)), oceUrl B (url req), request_options av)]"
proof -
  have app: "\<And>xs ys :: 'a event list.
      outbound_requests (xs @ ys) = outbound_requests xs @ outbound_requests ys"
    by (simp add: outbound_requests_def)
  have cons: "\<And>t u opts tr. outbound_requests (HttpRequest t u opts # (tr :: 'a event list))
      = (t, u, opts) # outbound_requests tr"
    by (simp add: outbound_requests_def)
  have nil: "outbound_requests ([] :: 'a event list) = []"
    by (simp add: outbound_requests_def)
  show ?thesis
    by (simp add: handleContentRequest_get [OF assms] cons app pipe_proxy_quiet
        writeProxyContent_calls nil split: option.split)
qed

text \<open>
  C4: for every GET request that reaches the proxy (with \<^verbatim>\<open>SERVER_URL\<close> set), exactly
  one outbound request is opened; its \<^verbatim>\<open>Authorization\<close> header is the credential when the
  credential is a string that is not empty, and it has no such header (the options carry
  no headers at all) when the credential is the empty string or absent.
\<close>

theorem C4_authorization_header:
  assumes "method req = ''GET''" and "SERVER_URL h = Some B"
  shows "map (\<lambda>(t, u, opts). authorization opts)
             (outbound_requests (fst (handleContentRequest h req av)))
           = [case av of None \<Rightarrow> None | Some v \<Rightarrow> if v = [] then None else Some v]
         \<and> map (\<lambda>(t, u, opts). headers opts)
             (outbound_requests (fst (handleContentRequest h req av)))
           = [case av of None \<Rightarrow> None
              | Some v \<Rightarrow> if v = [] then None else Some [(''Authorization'', v)]]"
  by (simp add: handleContentRequest_outbound [OF assms] request_options_def
      authorization_def split: option.split)

text \<open>A credential, the empty credential and the absent one.\<close>

theorem C4_authorization_header_witness:
  "map (\<lambda>(t, u, opts). headers opts)
       (outbound_requests (fst (handleContentRequest example_host get_logo (Some ''Basic abc''))))
     = [Some [(''Authorization'', ''Basic abc'')]]
   \<and> map (\<lambda>(t, u, opts). headers opts)
       (outbound_requests (fst (handleContentRequest example_host get_logo (Some []))))
     = [None]
   \<and> map (\<lambda>(t, u, opts). headers opts)
       (outbound_requests (fst (handleContentRequest example_host get_logo None)))
     = [None]"
proof -
  have g: "method get_logo = ''GET''"
    by (simp add: get_logo_def)
  have b: "SERVER_URL example_host = Some ''http://cms.example.com''"
    by (simp add: example_host_def)
  from C4_authorization_header [OF g b, of "Some ''Basic abc''"]
    C4_authorization_header [OF g b, of "Some []"]
    C4_authorization_header [OF g b, of None]
  show ?thesis by simp
qed

text \<open>
  C5: for every request whose method is not GET, \<open>handleContentRequest\<close> makes no
  call at all: nothing on the outbound transport, nothing on the response, and it ends
  without an error.
\<close>

theorem C5_non_get_is_dropped:
  assumes "method req \<noteq> ''GET''"
  shows "handleContentRequest h req av = ([], None)"
  using assms by (simp add: handleContentRequest_def)

text \<open>A POST request to the logo.\<close>

theorem C5_non_get_is_dropped_witness:
  "handleContentRequest example_host post_logo (Some ''Basic abc'') = ([], None)"
proof -
  have "method post_logo \<noteq> ''GET''"
    by (simp add: post_logo_def)
  from C5_non_get_is_dropped [OF this] show ?thesis .
qed

text \<open>
  C8: for every proxied request that the content server answers, the calls on the
  inbound response are \<^verbatim>\<open>res.writeHead\<close> with the status code and the headers of the
  upstream response as they are, then one write for each chunk of the upstream body,
  then the end; the head comes first, and no other call touches the status or the headers.
\<close>

theorem C8_status_and_headers_first:
  assumes "method req = ''GET''" and "SERVER_URL h = Some B"
    and "upstream h (transport_of (oceUrl B (url req))) (oceUrl B (url req))
           (request_options av) = Some pr"
  shows "filter on_response (fst (handleContentRequest h req av))
           = ResWriteHead (statusCode pr) (responseHeaders pr)
               # map ResWrite (chunks pr) @ [ResEnd]
         \<and> response_status (fst (handleContentRequest h req av)) = statusCode pr
         \<and> response_body (fst (handleContentRequest h req av)) = concat (chunks pr)"
proof -
  have bapp: "\<And>xs ys :: 'a event list. response_body (xs @ ys) = response_body xs @ response_body ys"
    by (simp add: response_body_def)
  have bcons: "\<And>t u opts tr. response_body (HttpRequest t u opts # (tr :: 'a event list))
      = response_body tr"
    by (simp add: response_body_def)
  show ?thesis
    by (simp add: handleContentRequest_get [OF assms(1,2)] assms(3) pipe_proxy_quiet
        writeProxyContent_calls response_status_def bapp bcons)
qed

text \<open>The logo, as the content server of the example delivers it.\<close>

theorem C8_status_and_headers_first_witness:
  "filter on_response (fst (handleContentRequest example_host get_logo (Some ''Basic abc'')))
     = [ResWriteHead 200 [(''content-type'', ''image/png'')], ResWrite ''PNG'', ResWrite ''DATA'',
        ResEnd]
   \<and> response_status (fst (handleContentRequest example_host get_logo (Some ''Basic abc''))) = 200
   \<and> response_body (fst (handleContentRequest example_host get_logo (Some ''Basic abc'')))
       = ''PNGDATA''"
proof -
  have g: "method get_logo = ''GET''"
    by (simp add: get_logo_def)
  have b: "SERVER_URL example_host = Some ''http://cms.example.com''"
    by (simp add: example_host_def)
  have u: "upstream example_host
             (transport_of (oceUrl ''http://cms.example.com'' (url get_logo)))
             (oceUrl ''http://cms.example.com'' (url get_logo))
             (request_options (Some ''Basic abc'')) = Some logo_response"
    by (simp add: example_host_def)
  from C8_status_and_headers_first [OF g b u] show ?thesis
    by (simp add: logo_response_def)
qed

text \<open>
  C10: when \<^verbatim>\<open>SERVER_URL\<close> is not set, \<open>handleContentRequest\<close> raises a TypeError for
  every GET request, having made no call; the handler mounted at \<^verbatim>\<open>/content/\<close> then
  makes no call on the outbound transport and none on the response, and ends in an error.
\<close>

theorem C10_undefined_server_url:
  assumes "method req = ''GET''" and "SERVER_URL h = None"
  shows "handleContentRequest h req av = ([], Some TypeError)
         \<and> filter on_transport (fst (content_handler h req)) = []
         \<and> filter on_response (fst (content_handler h req)) = []
         \<and> snd (content_handler h req) \<noteq> None"
proof -
  have "\<And>v. handleContentRequest h req v = ([], Some TypeError)"
    using assms by (simp add: handleContentRequest_def)
  then show ?thesis
    by (simp add: content_handler_def split: promise.split)
qed

text \<open>The host of the example without its \<^verbatim>\<open>SERVER_URL\<close>.\<close>

theorem C10_undefined_server_url_witness:
  "handleContentRequest (example_host\<lparr>SERVER_URL := None\<rparr>) get_logo (Some ''Basic abc'')
     = ([], Some TypeError)
   \<and> content_handler (example_host\<lparr>SERVER_URL := None\<rparr>) get_logo
     = ([CallIsAuthNeeded, CallGetAuthValue], Some UnhandledRejection)"
proof -
  have g: "method get_logo = ''GET''"
    by (simp add: get_logo_def)
  have b: "SERVER_URL (example_host\<lparr>SERVER_URL := None\<rparr>) = None"
    by simp
  from C10_undefined_server_url [OF g b] show ?thesis
    by (simp add: content_handler_def example_host_def)
qed


section \<open>The handler mounted at /content/\<close>

lemma handleContentRequest_no_auth_call:
  "CallGetAuthValue \<notin> set (fst (handleContentRequest h req av))"
  by (auto simp: handleContentRequest_def Let_def pipe_def writeProxyContent_def
      split: option.splits)

text \<open>
  C7: the handler mounted at \<^verbatim>\<open>/content/\<close> calls \<open>getAuthValue\<close> if and only if
  \<open>isAuthNeeded\<close> returns true. When it returns false the handler is the check followed
  by \<open>handleContentRequest\<close> with the empty credential. When it returns true the
  first two calls are the check and the acquisition, and what follows them, once the
  credential has arrived, is \<open>handleContentRequest\<close> with that credential.
\<close>

theorem C7_credential_only_when_needed:
  "(CallGetAuthValue \<in> set (fst (content_handler h req)) \<longleftrightarrow> isAuthNeeded h)
   \<and> (\<not> isAuthNeeded h \<longrightarrow>
        content_handler h req
          = (CallIsAuthNeeded # fst (handleContentRequest h req (Some '''')),
             snd (handleContentRequest h req (Some ''''))))
   \<and> (isAuthNeeded h \<longrightarrow>
        take 2 (fst (content_handler h req)) = [CallIsAuthNeeded, CallGetAuthValue]
        \<and> (\<forall>av. getAuthValue h = Resolved av \<longrightarrow>
              drop 2 (fst (content_handler h req)) = fst (handleContentRequest h req av)))"
  using handleContentRequest_no_auth_call [of h req]
  by (auto simp: content_handler_def split_beta split: promise.splits)

text \<open>The host of the example, which needs a credential, and the same host without the need.\<close>

theorem C7_credential_only_when_needed_witness:
  "CallGetAuthValue \<in> set (fst (content_handler example_host get_logo))
   \<and> take 2 (fst (content_handler example_host get_logo)) = [CallIsAuthNeeded, CallGetAuthValue]
   \<and> drop 2 (fst (content_handler example_host get_logo))
       = fst (handleContentRequest example_host get_logo (Some ''Basic abc''))
   \<and> CallGetAuthValue \<notin> set (fst (content_handler (example_host\<lparr>isAuthNeeded := False\<rparr>) get_logo))
   \<and> content_handler (example_host\<lparr>isAuthNeeded := False\<rparr>) get_logo
       = (CallIsAuthNeeded
            # fst (handleContentRequest (example_host\<lparr>isAuthNeeded := False\<rparr>) get_logo (Some '''')),
          snd (handleContentRequest (example_host\<lparr>isAuthNeeded := False\<rparr>) get_logo (Some '''')))"
proof -
  have a: "isAuthNeeded example_host"
    by (simp add: example_host_def)
  have v: "getAuthValue example_host = Resolved (Some ''Basic abc'')"
    by (simp add: example_host_def)
  have n: "\<not> isAuthNeeded (example_host\<lparr>isAuthNeeded := False\<rparr>)"
    by simp
  from C7_credential_only_when_needed [of example_host get_logo]
    C7_credential_only_when_needed [of "example_host\<lparr>isAuthNeeded := False\<rparr>" get_logo]
    a v n
  show ?thesis by (simp add: handleContentRequest_no_auth_call)
qed

text \<open>
  C9: when a credential is needed, the handler mounted at \<^verbatim>\<open>/content/\<close> calls
  \<open>getAuthValue\<close> for every request, whatever its method; for a request that is
  not a GET, once the credential has arrived, these two calls are all that happens.
\<close>

theorem C9_credential_before_method_gate:
  assumes "isAuthNeeded h"
  shows "CallGetAuthValue \<in> set (fst (content_handler h req))
         \<and> (method req \<noteq> ''GET'' \<longrightarrow>
              (\<forall>av. getAuthValue h = Resolved av \<longrightarrow>
                 content_handler h req = ([CallIsAuthNeeded, CallGetAuthValue], None)))"
  using assms
  by (auto simp: content_handler_def handleContentRequest_def split_beta
      split: promise.splits)

text \<open>A POST request: the credential is acquired and the request is dropped.\<close>

theorem C9_credential_before_method_gate_witness:
  "CallGetAuthValue \<in> set (fst (content_handler example_host post_logo))
   \<and> content_handler example_host post_logo = ([CallIsAuthNeeded, CallGetAuthValue], None)"
proof -
  have a: "isAuthNeeded example_host"
    by (simp add: example_host_def)
  have v: "getAuthValue example_host = Resolved (Some ''Basic abc'')"
    by (simp add: example_host_def)
  have m: "method post_logo \<noteq> ''GET''"
    by (simp add: post_logo_def)
  from C9_credential_before_method_gate [OF a, of post_logo] v m show ?thesis
    by simp
qed

section \<open>The route and the data\<close>

lemma renderer_calls_on_data:
  "renderer_calls (fst (on_data h req d))
     = [\<lparr>data = d, requestQueryParams = query req, notFound = False\<rparr>]"
  by (simp add: on_data_def renderer_calls_def Let_def split: option.split prod.split)

lemma renderer_calls_render_handler:
  "renderer_calls (fst (render_handler h req))
     = (case snd (data_promise h req) of
          Resolved d \<Rightarrow> [\<lparr>data = d, requestQueryParams = query req, notFound = False\<rparr>]
        | Rejected \<Rightarrow> [])"
proof (cases "snd (data_promise h req)")
  case (Resolved d)
  then have "fst (render_handler h req) = fst (data_promise h req) @ fst (on_data h req d)"
    by (simp add: render_handler_def split_beta)
  then show ?thesis
    by (simp add: Resolved data_promise_quiet renderer_calls_on_data)
next
  case Rejected
  then have "fst (render_handler h req) = fst (data_promise h req) @ []"
    by (simp add: render_handler_def split_beta)
  then show ?thesis
    by (simp only: Rejected data_promise_quiet) (simp add: renderer_calls_def)
qed

text \<open>
  C6: when some route of the table matches the URL of the request, the route used is
  the first one that matches; when none matches, the route used is the empty
  descriptor, which has no \<open>fetchInitialData\<close>, and the data promise is already resolved
  to undefined, with no call and no error. The renderer is called with the data that
  \<open>fetchInitialData\<close> of the route used resolves to when the route has that function,
  and with undefined when it has not.
\<close>

theorem C6_first_match_and_data:
  "((\<exists>r \<in> set (Routes h). matchPath h (url req) r) \<longrightarrow>
      (\<exists>i < length (Routes h).
         activeRoute h req = Routes h ! i \<and> matchPath h (url req) (Routes h ! i)
         \<and> (\<forall>j < i. \<not> matchPath h (url req) (Routes h ! j))))
   \<and> ((\<forall>r \<in> set (Routes h). \<not> matchPath h (url req) r) \<longrightarrow>
        activeRoute h req = empty_route
        \<and> fetchInitialData (activeRoute h req) = None
        \<and> data_promise h req = ([], Resolved None))
   \<and> renderer_calls (fst (render_handler h req))
       = (case fetchInitialData (activeRoute h req) of
            None \<Rightarrow> [\<lparr>data = None, requestQueryParams = query req, notFound = False\<rparr>]
          | Some f \<Rightarrow>
              (case f req of
                 Resolved d \<Rightarrow> [\<lparr>data = d, requestQueryParams = query req, notFound = False\<rparr>]
               | Rejected \<Rightarrow> []))"
proof (intro conjI impI)
  assume "\<exists>r \<in> set (Routes h). matchPath h (url req) r"
  then obtain r where r: "find (matchPath h (url req)) (Routes h) = Some r"
    by (cases "find (matchPath h (url req)) (Routes h)") (auto simp: find_None_iff)
  then have "activeRoute h req = r"
    by (simp add: activeRoute_def)
  with r show "\<exists>i < length (Routes h).
         activeRoute h req = Routes h ! i \<and> matchPath h (url req) (Routes h ! i)
         \<and> (\<forall>j < i. \<not> matchPath h (url req) (Routes h ! j))"
    by (auto simp: find_Some_iff)
next
  assume "\<forall>r \<in> set (Routes h). \<not> matchPath h (url req) r"
  then have "find (matchPath h (url req)) (Routes h) = None"
    by (auto simp: find_None_iff)
  then show "activeRoute h req = empty_route"
    and "fetchInitialData (activeRoute h req) = None"
    and "data_promise h req = ([], Resolved None)"
    by (simp_all add: activeRoute_def empty_route_def data_promise_def)
next
  show "renderer_calls (fst (render_handler h req))
       = (case fetchInitialData (activeRoute h req) of
            None \<Rightarrow> [\<lparr>data = None, requestQueryParams = query req, notFound = False\<rparr>]
          | Some f \<Rightarrow>
              (case f req of
                 Resolved d \<Rightarrow> [\<lparr>data = d, requestQueryParams = query req, notFound = False\<rparr>]
               | Rejected \<Rightarrow> []))"
    by (simp add: renderer_calls_render_handler data_promise_def split: option.split)
qed

text \<open>
  The page \<^verbatim>\<open>/about\<close> takes the second route of the table, which loads no data; the
  unknown page takes the empty descriptor.
\<close>

theorem C6_first_match_and_data_witness:
  "activeRoute example_host get_about = about_route
   \<and> renderer_calls (fst (render_handler example_host get_about))
       = [\<lparr>data = None, requestQueryParams = [], notFound = False\<rparr>]
   \<and> activeRoute example_host get_unknown = empty_route
   \<and> data_promise example_host get_unknown = ([], Resolved None)"
proof -
  have m: "\<exists>r \<in> set (Routes example_host). matchPath example_host (url get_about) r"
    by (simp add: example_host_def get_about_def about_route_def)
  have n: "\<forall>r \<in> set (Routes example_host). \<not> matchPath example_host (url get_unknown) r"
    by (simp add: example_host_def get_unknown_def about_route_def home_route_def)
  from C6_first_match_and_data [of example_host get_about] m
  obtain i where i: "i < length (Routes example_host)"
    "activeRoute example_host get_about = Routes example_host ! i"
    "matchPath example_host (url get_about) (Routes example_host ! i)"
    by blast
  have "i = 1"
    using i(1,3) by (cases i) (auto simp: example_host_def get_about_def home_route_def)
  with i(2) have a: "activeRoute example_host get_about = about_route"
    by (simp add: example_host_def)
  have f: "fetchInitialData about_route = None"
    by (simp add: about_route_def)
  have q: "query get_about = []"
    by (simp add: get_about_def)
  from C6_first_match_and_data [of example_host get_about] a f q
  have c: "renderer_calls (fst (render_handler example_host get_about))
       = [\<lparr>data = None, requestQueryParams = [], notFound = False\<rparr>]"
    by simp
  from C6_first_match_and_data [of example_host get_unknown] n a c show ?thesis
    by simp
qed

section \<open>The scenarios of the specification\<close>

text \<open>
  \<^verbatim>\<open>GET /content/assets/logo.png\<close> with \<^verbatim>\<open>SERVER_URL=http://cms.example.com\<close>: the
  credential is acquired, the request goes to
  \<^verbatim>\<open>http://cms.example.com/content/assets/logo.png\<close> with the credential, and the answer
  of the content server is passed on.
\<close>

lemma server_get_content_logo:
  "server example_host
     \<lparr>method = ''GET'', url = ''/content/assets/logo.png'', query = [], body = []\<rparr>
   = ([CallIsAuthNeeded, CallGetAuthValue,
       HttpRequest Http ''http://cms.example.com/content/assets/logo.png''
         \<lparr>headers = Some [(''Authorization'', ''Basic abc'')]\<rparr>,
       ProxyEnd,
       ResWriteHead 200 [(''content-type'', ''image/png'')],
       ResWrite ''PNG'', ResWrite ''DATA'', ResEnd], None)"
  by (simp add: server_def example_host_def mount_content_logo startsWith_def
      content_handler_def handleContentRequest_def oceUrl_parts strip_trailing_slash_def
      strip_leading_slash_def ends_with_slash_def starts_with_slash_def transport_of_def
      request_options_def pipe_def writeProxyContent_def logo_response_def)

text \<open>\<^verbatim>\<open>GET /unknown\<close>: the renderer reports the page as not found, the status is 404.\<close>

lemma server_get_unknown:
  "server example_host get_unknown
   = ([CallRenderer \<lparr>data = None, requestQueryParams = [], notFound = False\<rparr>,
       ResStatus 404, ResSend ''<html>not found</html>''], None)"
  by (simp add: server_def example_host_def mount_content_passed get_unknown_def
      get_accepts_def render_handler_def data_promise_def activeRoute_def empty_route_def
      home_route_def about_route_def on_data_def example_renderer_def)

end
